theory Spec2Isabelle
  imports Complex_Main "HOL-Library.Word"
begin

section \<open>Reputation records (reputation/reputation.go and package nodereputation)\<close>

text \<open>
  Go's \<open>int\<close> is 64 bits wide on the 64-bit platforms the repository targets, and the
  later package declares the same fields as \<open>int64\<close>: both are two's complement words,
  \<open>+\<close> and \<open>-\<close> wrap around.
\<close>

type_synonym int64 = "64 word"

record NodeReputationRecord =
  source :: string
  nodeName :: string
  timestamp :: string
  uptime :: int64
  auditSuccess :: int64
  auditFail :: int64
  latency :: int64
  amountOfDataStored :: int64
  falseClaims :: int64
  shardsModified :: int64

text \<open>\<open>type mutOp string\<close> and \<open>type column string\<close>: any string is a value of the type.\<close>

type_synonym mutOp = string
type_synonym column = string

definition increment :: mutOp where "increment = ''increment''"
definition decrement :: mutOp where "decrement = ''decrement''"
definition overWrite :: mutOp where "overWrite = ''overWrite''"

definition uptimeColumn :: column where "uptimeColumn = ''uptime''"
definition auditSuccessColumn :: column where "auditSuccessColumn = ''auditSuccess''"
definition auditFailColumn :: column where "auditFailColumn = ''auditFail''"
definition latencyColumn :: column where "latencyColumn = ''latency''"
definition amountOfDataStoredColumn :: column where
  "amountOfDataStoredColumn = ''amountOfDataStored''"
definition falseClaimsColumn :: column where "falseClaimsColumn = ''falseClaims''"
definition shardsModifiedColumn :: column where "shardsModifiedColumn = ''shardsModified''"

text \<open>\<open>performOp\<close>: a switch with no default, so an unknown operation leaves the value.\<close>

definition performOp :: "mutOp \<Rightarrow> int64 \<Rightarrow> int64 \<Rightarrow> int64" where
  "performOp op v scalar =
     (if op = increment then v + scalar
      else if op = decrement then v - scalar
      else if op = overWrite then scalar
      else v)"

text \<open>
  \<open>func (row NodeReputationRecord) morphism(col, op, scalar)\<close> of reputation.go. The
  receiver is passed by value: the assignments of the switch change the callee's copy,
  which is returned.
\<close>

definition morphism ::
  "NodeReputationRecord \<Rightarrow> column \<Rightarrow> mutOp \<Rightarrow> int64 \<Rightarrow> NodeReputationRecord" where
  "morphism row col op scalar =
     (if col = uptimeColumn then row\<lparr>uptime := performOp op (uptime row) scalar\<rparr>
      else if col = auditSuccessColumn
        then row\<lparr>auditSuccess := performOp op (auditSuccess row) scalar\<rparr>
      else if col = auditFailColumn
        then row\<lparr>auditFail := performOp op (auditFail row) scalar\<rparr>
      else if col = latencyColumn then row\<lparr>latency := performOp op (latency row) scalar\<rparr>
      else if col = amountOfDataStoredColumn
        then row\<lparr>amountOfDataStored := performOp op (amountOfDataStored row) scalar\<rparr>
      else if col = falseClaimsColumn
        then row\<lparr>falseClaims := performOp op (falseClaims row) scalar\<rparr>
      else if col = shardsModifiedColumn
        then row\<lparr>shardsModified := performOp op (shardsModified row) scalar\<rparr>
      else row)"

text \<open>
  The function \<open>morphism(row, col, op, scalar)\<close> of package nodereputation, with its own
  \<open>performOp\<close>; the row is again a by-value parameter.
\<close>

definition nodereputation_performOp :: "mutOp \<Rightarrow> int64 \<Rightarrow> int64 \<Rightarrow> int64" where
  "nodereputation_performOp op v scalar =
     (if op = increment then v + scalar
      else if op = decrement then v - scalar
      else if op = overWrite then scalar
      else v)"

definition nodereputation_morphism ::
  "NodeReputationRecord \<Rightarrow> column \<Rightarrow> mutOp \<Rightarrow> int64 \<Rightarrow> NodeReputationRecord" where
  "nodereputation_morphism row col op scalar =
     (if col = uptimeColumn
        then row\<lparr>uptime := nodereputation_performOp op (uptime row) scalar\<rparr>
      else if col = auditSuccessColumn
        then row\<lparr>auditSuccess := nodereputation_performOp op (auditSuccess row) scalar\<rparr>
      else if col = auditFailColumn
        then row\<lparr>auditFail := nodereputation_performOp op (auditFail row) scalar\<rparr>
      else if col = latencyColumn
        then row\<lparr>latency := nodereputation_performOp op (latency row) scalar\<rparr>
      else if col = amountOfDataStoredColumn
        then row\<lparr>amountOfDataStored :=
               nodereputation_performOp op (amountOfDataStored row) scalar\<rparr>
      else if col = falseClaimsColumn
        then row\<lparr>falseClaims := nodereputation_performOp op (falseClaims row) scalar\<rparr>
      else if col = shardsModifiedColumn
        then row\<lparr>shardsModified := nodereputation_performOp op (shardsModified row) scalar\<rparr>
      else row)"

text \<open>\<open>NewReputationRow(source, name)\<close>.\<close>

definition NewReputationRow :: "string \<Rightarrow> string \<Rightarrow> NodeReputationRecord" where
  "NewReputationRow src name =
     \<lparr>source = src, nodeName = name, timestamp = '''', uptime = 0, auditSuccess = 0,
      auditFail = 0, latency = 0, amountOfDataStored = 0, falseClaims = 0,
      shardsModified = 0\<rparr>"

subsection \<open>The audit success ratio\<close>

text \<open>
  The value of a Go floating-point expression, as far as the ratio needs it: a number,
  an infinity or NaN. The conversion of an integer to \<open>float32\<close>/\<open>float64\<close> and the
  quotient are kept exact (their rounding is left out); what is modelled is the IEEE 754
  rule for a zero divisor, which Go follows without panicking: \<open>0/0\<close> is NaN and
  \<open>x/0\<close> is an infinity with the sign of \<open>x\<close>.
\<close>

datatype float = NaN | PosInf | NegInf | Finite real

definition float_of_int64 :: "int64 \<Rightarrow> real" where
  "float_of_int64 x = real_of_int (sint x)"

definition float_div :: "real \<Rightarrow> real \<Rightarrow> float" where
  "float_div a b =
     (if b = 0 then (if a = 0 then NaN else if 0 < a then PosInf else NegInf)
      else Finite (a / b))"

text \<open>reputation.go: \<open>float64(row.auditSuccess) / float64(row.auditSuccess+row.auditFail)\<close>.\<close>

definition auditSuccessRatio :: "NodeReputationRecord \<Rightarrow> float" where
  "auditSuccessRatio row =
     float_div (float_of_int64 (auditSuccess row))
               (float_of_int64 (auditSuccess row + auditFail row))"

text \<open>Package nodereputation: the result starts at 0 and is the quotient when \<open>total > 0\<close>.\<close>

definition nodereputation_auditSuccessRatio :: "NodeReputationRecord \<Rightarrow> float" where
  "nodereputation_auditSuccessRatio row =
     (let total = auditSuccess row + auditFail row
      in if 0 <s total then float_div (float_of_int64 (auditSuccess row)) (float_of_int64 total)
         else Finite 0)"

section \<open>The repeating-job scheduler (pkg/repeat)\<close>

subsection \<open>Decimal text of integers\<close>

text \<open>
  \<open>strconv.Itoa\<close> and the verbs \<open>%v\<close> and \<open>%d\<close> of \<open>fmt\<close> print an integer in
  base 10, with a leading \<open>-\<close> when it is negative.
\<close>

function digits :: "nat \<Rightarrow> string" where
  "digits n =
     (if n < 10 then [''0123456789'' ! n]
      else digits (n div 10) @ [''0123456789'' ! (n mod 10)])"
  by pat_completeness auto
termination
  by (relation "measure (\<lambda>n. n)") auto

declare digits.simps [simp del]

definition Itoa :: "int \<Rightarrow> string" where
  "Itoa i = (if i < 0 then CHR ''-'' # digits (nat (- i)) else digits (nat i))"

subsection \<open>Jobs\<close>

text \<open>
  A \<open>Repeater\<close> is an interface value: a pointer to the job object together with the
  methods of its dynamic type. The objects live in a heap, and \<open>Repeat()\<close> changes the
  object it is called on (the receivers of the repository's jobs are pointers), returning
  the repeat flag and the error (\<open>None\<close> for \<open>nil\<close>, otherwise the text \<open>%v\<close> prints).
  \<open>Name()\<close> and \<open>State()\<close> read the object.
\<close>

type_synonym addr = nat

type_synonym 's heap = "addr \<Rightarrow> 's"

record 's Repeater =
  ptr :: addr
  Repeat_method :: "'s \<Rightarrow> 's \<times> bool \<times> string option"
  Name_method :: "'s \<Rightarrow> string"
  State_method :: "'s \<Rightarrow> string"

text \<open>The call \<open>job.Repeat()\<close> on a heap: the heap after it, the flag and the error.\<close>

definition invoke :: "'s heap \<Rightarrow> 's Repeater \<Rightarrow> 's heap \<times> bool \<times> string option" where
  "invoke h job =
     (case Repeat_method job (h (ptr job)) of
        (s', repeat, err) \<Rightarrow> (h(ptr job := s'), repeat, err))"

text \<open>
  \<open>fmt.Sprintf("error at index %v for job %v with state %v err %v", i, job.Name(),
  job.State(), err)\<close>, whose arguments are evaluated after \<open>job.Repeat()\<close> returned.
\<close>

definition error_entry :: "nat \<Rightarrow> string \<Rightarrow> string \<Rightarrow> string \<Rightarrow> string" where
  "error_entry i name state err =
     ''error at index '' @ Itoa (int i) @ '' for job '' @ name @ '' with state '' @ state
       @ '' err '' @ err"

text \<open>
  The \<open>for i, job := range jobs\<close> loop of \<open>Repeat\<close>, from index \<open>i\<close> on, with the
  variables \<open>errors\<close> and \<open>resJobs\<close> it appends to.
\<close>

fun jobs_loop ::
  "'s heap \<Rightarrow> nat \<Rightarrow> 's Repeater list \<Rightarrow> string list \<Rightarrow> 's Repeater list
     \<Rightarrow> 's heap \<times> string list \<times> 's Repeater list" where
  "jobs_loop h i [] errors resJobs = (h, errors, resJobs)"
| "jobs_loop h i (job # jobs) errors resJobs =
     (case invoke h job of
        (h', repeat, err) \<Rightarrow>
          let errors' =
                (case err of
                   None \<Rightarrow> errors
                 | Some e \<Rightarrow>
                     errors @ [error_entry i (Name_method job (h' (ptr job)))
                                 (State_method job (h' (ptr job))) e]);
              resJobs' = (if repeat then resJobs @ [job] else resJobs)
          in jobs_loop h' (Suc i) jobs errors' resJobs')"

text \<open>
  \<open>Repeat(jobs, errors)\<close> calls itself with the retained jobs until none is left, so it
  need not return. The first argument is fuel, the number of calls of \<open>Repeat\<close> that may
  still be made: \<open>None\<close> says the fuel ran out, and \<open>Repeat\<close> returns exactly when some
  amount of fuel gives \<open>Some\<close>. The result is the heap it leaves and the error list.
\<close>

fun Repeat ::
  "nat \<Rightarrow> 's heap \<Rightarrow> 's Repeater list \<Rightarrow> string list \<Rightarrow> ('s heap \<times> string list) option" where
  "Repeat 0 h jobs errors = None"
| "Repeat (Suc fuel) h jobs errors =
     (if length jobs \<le> 0 then Some (h, errors)
      else case jobs_loop h 0 jobs errors [] of
             (h', errors', resJobs) \<Rightarrow> Repeat fuel h' resJobs errors')"

subsection \<open>The counter job of the test TestCountUpToTen\<close>

record inc =
  id_inc :: string
  num_inc :: int64

definition inc_Name :: "inc \<Rightarrow> string" where
  "inc_Name s = id_inc s"

definition inc_State :: "inc \<Rightarrow> string" where
  "inc_State s = Itoa (sint (num_inc s))"

definition inc_Repeat :: "inc \<Rightarrow> inc \<times> bool \<times> string option" where
  "inc_Repeat s =
     (let s' = s\<lparr>num_inc := num_inc s + 1\<rparr>
      in if 10 \<le>s num_inc s' then (s', False, None) else (s', True, None))"

text \<open>\<open>&add\<close> as a \<open>repeat.Repeater\<close>, for the object at address \<open>a\<close>.\<close>

definition inc_Repeater :: "addr \<Rightarrow> inc Repeater" where
  "inc_Repeater a =
     \<lparr>ptr = a, Repeat_method = inc_Repeat, Name_method = inc_Name, State_method = inc_State\<rparr>"

text \<open>The heap of the test: \<open>add = inc{id: "Ten", num: 1}\<close>, kept at address 0.\<close>

definition add_heap :: "inc heap" where
  "add_heap = (\<lambda>a. \<lparr>id_inc = ''Ten'', num_inc = 1\<rparr>)"

subsection \<open>Further sample jobs\<close>

text \<open>
  A job that fails: its \<open>Repeat()\<close> counts like the counter and returns
  \<open>(false, errors.New("boom"))\<close>.
\<close>

definition boom_Repeat :: "inc \<Rightarrow> inc \<times> bool \<times> string option" where
  "boom_Repeat s = (s\<lparr>num_inc := num_inc s + 1\<rparr>, False, Some ''boom'')"

definition boom_Repeater :: "addr \<Rightarrow> inc Repeater" where
  "boom_Repeater a =
     \<lparr>ptr = a, Repeat_method = boom_Repeat, Name_method = inc_Name, State_method = inc_State\<rparr>"




subsection \<open>One round and the runs of a job, in the words of the specification\<close>

text \<open>
  The record of one round, written from the jobs' methods alone: every job of the list is
  called once, in list order, each on the object as the calls before it left it. An entry
  holds the job, the state of its object after the call, the flag and the error.
\<close>

fun calls ::
  "'s heap \<Rightarrow> 's Repeater list \<Rightarrow> ('s Repeater \<times> 's \<times> bool \<times> string option) list" where
  "calls h [] = []"
| "calls h (job # jobs) =
     (case Repeat_method job (h (ptr job)) of
        (s', repeat, err) \<Rightarrow> (job, s', repeat, err) # calls (h(ptr job := s')) jobs)"

text \<open>The heap a round leaves: each called object holds the state its call left.\<close>

definition heap_after :: "'s heap \<Rightarrow> 's Repeater list \<Rightarrow> 's heap" where
  "heap_after h jobs =
     fold (\<lambda>(job, s', repeat, err) h'. h'(ptr job := s')) (calls h jobs) h"

text \<open>The jobs of a round that returned true, in the order of their calls.\<close>

definition retained :: "'s heap \<Rightarrow> 's Repeater list \<Rightarrow> 's Repeater list" where
  "retained h jobs = map fst (filter (\<lambda>(job, s', repeat, err). repeat) (calls h jobs))"

text \<open>
  One entry for each call that returned an error, in the order of the calls, numbered
  from \<open>i\<close>: the text \<open>error at index\<close> \<open>k\<close> \<open>for job\<close> name \<open>with state\<close> state
  \<open>err\<close> error, with the name and the state the object has after the call.
\<close>

definition round_errors :: "nat \<Rightarrow> 's heap \<Rightarrow> 's Repeater list \<Rightarrow> string list" where
  "round_errors i h jobs =
     concat (map (\<lambda>(k, job, s', repeat, err).
                    case err of
                      None \<Rightarrow> []
                    | Some e \<Rightarrow>
                        [''error at index '' @ Itoa (int k) @ '' for job '' @ Name_method job s'
                           @ '' with state '' @ State_method job s' @ '' err '' @ e])
                 (enumerate i (calls h jobs)))"

text \<open>
  What the \<open>n\<close>-th call in a row of a job's \<open>Repeat()\<close> answers, counting from 0 and
  starting from the object state \<open>s\<close>: the state after a call is the first component of
  what the method returns, its flag the second.
\<close>

definition next_state :: "'s Repeater \<Rightarrow> 's \<Rightarrow> 's" where
  "next_state job s = fst (Repeat_method job s)"

definition repeats :: "'s Repeater \<Rightarrow> 's \<Rightarrow> bool" where
  "repeats job s = fst (snd (Repeat_method job s))"


section \<open>Properties of the reputation records\<close>

lemmas column_defs =
  uptimeColumn_def auditSuccessColumn_def auditFailColumn_def latencyColumn_def
  amountOfDataStoredColumn_def falseClaimsColumn_def shardsModifiedColumn_def

text \<open>
  C10. Whatever the row, the column selector, the operation and the scalar, both
  \<open>morphism\<close> functions return a record that differs from the row at most in the field
  the selector names: \<open>source\<close>, \<open>nodeName\<close> and \<open>timestamp\<close> are always the row's,
  and each counter is the row's unless the selector is that counter's column. The row is
  a value (Go copies the struct into the callee), so the caller's record is not touched.
\<close>

theorem morphism_frame:
  "source (morphism row col op scalar) = source row
   \<and> nodeName (morphism row col op scalar) = nodeName row
   \<and> timestamp (morphism row col op scalar) = timestamp row
   \<and> (col \<noteq> uptimeColumn \<longrightarrow> uptime (morphism row col op scalar) = uptime row)
   \<and> (col \<noteq> auditSuccessColumn \<longrightarrow>
        auditSuccess (morphism row col op scalar) = auditSuccess row)
   \<and> (col \<noteq> auditFailColumn \<longrightarrow> auditFail (morphism row col op scalar) = auditFail row)
   \<and> (col \<noteq> latencyColumn \<longrightarrow> latency (morphism row col op scalar) = latency row)
   \<and> (col \<noteq> amountOfDataStoredColumn \<longrightarrow>
        amountOfDataStored (morphism row col op scalar) = amountOfDataStored row)
   \<and> (col \<noteq> falseClaimsColumn \<longrightarrow>
        falseClaims (morphism row col op scalar) = falseClaims row)
   \<and> (col \<noteq> shardsModifiedColumn \<longrightarrow>
        shardsModified (morphism row col op scalar) = shardsModified row)
   \<and> source (nodereputation_morphism row col op scalar) = source row
   \<and> nodeName (nodereputation_morphism row col op scalar) = nodeName row
   \<and> timestamp (nodereputation_morphism row col op scalar) = timestamp row
   \<and> (col \<noteq> uptimeColumn \<longrightarrow>
        uptime (nodereputation_morphism row col op scalar) = uptime row)
   \<and> (col \<noteq> auditSuccessColumn \<longrightarrow>
        auditSuccess (nodereputation_morphism row col op scalar) = auditSuccess row)
   \<and> (col \<noteq> auditFailColumn \<longrightarrow>
        auditFail (nodereputation_morphism row col op scalar) = auditFail row)
   \<and> (col \<noteq> latencyColumn \<longrightarrow>
        latency (nodereputation_morphism row col op scalar) = latency row)
   \<and> (col \<noteq> amountOfDataStoredColumn \<longrightarrow>
        amountOfDataStored (nodereputation_morphism row col op scalar)
          = amountOfDataStored row)
   \<and> (col \<noteq> falseClaimsColumn \<longrightarrow>
        falseClaims (nodereputation_morphism row col op scalar) = falseClaims row)
   \<and> (col \<noteq> shardsModifiedColumn \<longrightarrow>
        shardsModified (nodereputation_morphism row col op scalar) = shardsModified row)"
  by (simp add: morphism_def nodereputation_morphism_def column_defs)

theorem morphism_frame_witness:
  "auditSuccessColumn \<noteq> uptimeColumn
   \<and> uptime (morphism (NewReputationRow ''self'' ''identity'') auditSuccessColumn increment 5)
       = uptime (NewReputationRow ''self'' ''identity'')
   \<and> auditFailColumn \<noteq> latencyColumn
   \<and> latency (nodereputation_morphism (NewReputationRow ''self'' ''identity'')
         auditFailColumn overWrite 7)
       = latency (NewReputationRow ''self'' ''identity'')
   \<and> auditSuccess (morphism (NewReputationRow ''self'' ''identity'')
         auditSuccessColumn increment 5) = 5"
  using morphism_frame [of "NewReputationRow ''self'' ''identity''" auditSuccessColumn increment 5]
    morphism_frame [of "NewReputationRow ''self'' ''identity''" auditFailColumn overWrite 7]
  by (simp add: column_defs morphism_def NewReputationRow_def performOp_def increment_def)

lemma nodereputation_auditSuccessRatio_guarded:
  "nodereputation_auditSuccessRatio row =
     (if 0 <s auditSuccess row + auditFail row
      then Finite (real_of_int (sint (auditSuccess row))
                   / real_of_int (sint (auditSuccess row + auditFail row)))
      else Finite 0)"
proof (cases "0 <s auditSuccess row + auditFail row")
  case True
  then have "0 < sint (auditSuccess row + auditFail row)"
    by (simp add: word_sless_alt)
  then have "real_of_int (sint (auditSuccess row + auditFail row)) \<noteq> 0"
    by linarith
  with True show ?thesis
    unfolding nodereputation_auditSuccessRatio_def float_div_def float_of_int64_def Let_def
    by (simp only: if_True if_False)
next
  case False
  then show ?thesis
    by (simp add: nodereputation_auditSuccessRatio_def Let_def)
qed

text \<open>
  C9. With no audit recorded (\<open>auditSuccess = 0\<close>, \<open>auditFail = 0\<close>), as in the
  record \<open>NewReputationRow\<close> builds, the guarded function of package nodereputation
  returns 0, while the method of reputation.go divides 0 by 0 and returns NaN.
\<close>

theorem auditSuccessRatio_no_audits:
  "auditSuccessRatio (NewReputationRow ''self'' ''identity'') = NaN
   \<and> nodereputation_auditSuccessRatio (NewReputationRow ''self'' ''identity'') = Finite 0"
  by (simp add: auditSuccessRatio_def nodereputation_auditSuccessRatio_def float_div_def
      float_of_int64_def NewReputationRow_def)

section \<open>Properties of the scheduler\<close>

subsection \<open>One round\<close>

lemma calls_jobs: "map fst (calls h jobs) = jobs"
  by (induction jobs arbitrary: h) (auto split: prod.split)

lemma heap_after_Nil: "heap_after h [] = h"
  by (simp add: heap_after_def)

lemma heap_after_Cons:
  "heap_after h (job # jobs) =
     heap_after (h(ptr job := next_state job (h (ptr job)))) jobs"
  by (simp add: heap_after_def next_state_def split: prod.split)

lemma retained_Nil: "retained h [] = []"
  by (simp add: retained_def)

lemma retained_Cons:
  "retained h (job # jobs) =
     (if repeats job (h (ptr job)) then [job] else [])
     @ retained (h(ptr job := next_state job (h (ptr job)))) jobs"
  by (simp add: retained_def next_state_def repeats_def split: prod.split)

lemma round_errors_Nil: "round_errors i h [] = []"
  by (simp add: round_errors_def)

lemma round_errors_Cons:
  "round_errors i h (job # jobs) =
     (case snd (snd (Repeat_method job (h (ptr job)))) of
        None \<Rightarrow> []
      | Some e \<Rightarrow>
          [''error at index '' @ Itoa (int i) @ '' for job ''
             @ Name_method job (next_state job (h (ptr job)))
             @ '' with state '' @ State_method job (next_state job (h (ptr job)))
             @ '' err '' @ e])
     @ round_errors (Suc i) (h(ptr job := next_state job (h (ptr job)))) jobs"
  by (simp add: round_errors_def next_state_def split: prod.split option.split)

lemma jobs_loop_round:
  "jobs_loop h i jobs errors resJobs =
     (heap_after h jobs, errors @ round_errors i h jobs, resJobs @ retained h jobs)"
proof (induction jobs arbitrary: h i errors resJobs)
  case Nil
  show ?case by (simp add: heap_after_Nil retained_Nil round_errors_Nil)
next
  case (Cons job jobs)
  obtain s' r e where call: "Repeat_method job (h (ptr job)) = (s', r, e)"
    by (cases "Repeat_method job (h (ptr job))") auto
  then have inv: "invoke h job = (h(ptr job := s'), r, e)"
    by (simp add: invoke_def)
  from call have ns: "next_state job (h (ptr job)) = s'" and rp: "repeats job (h (ptr job)) = r"
    by (simp_all add: next_state_def repeats_def)
  show ?case
    by (cases e)
      (simp_all add: inv call ns rp Cons.IH heap_after_Cons retained_Cons round_errors_Cons
        error_entry_def)
qed

lemma length_round_errors:
  "length (round_errors i h jobs) =
     length (filter (\<lambda>(job, s', repeat, err). err \<noteq> None) (calls h jobs))"
proof (induction jobs arbitrary: h i)
  case Nil
  show ?case by (simp add: round_errors_Nil)
next
  case (Cons job jobs)
  obtain s' r e where call: "Repeat_method job (h (ptr job)) = (s', r, e)"
    by (cases "Repeat_method job (h (ptr job))") auto
  then have ns: "next_state job (h (ptr job)) = s'"
    by (simp add: next_state_def)
  have "length (round_errors (Suc i) (h(ptr job := s')) jobs) =
     length (filter (\<lambda>(job, s', repeat, err). err \<noteq> None) (calls (h(ptr job := s')) jobs))"
    by (rule Cons.IH)
  then show ?case
    by (cases e) (simp_all add: call ns round_errors_Cons)
qed

lemma Repeat_step:
  "jobs \<noteq> [] \<Longrightarrow>
   Repeat (Suc fuel) h jobs errors =
     Repeat fuel (heap_after h jobs) (retained h jobs) (errors @ round_errors 0 h jobs)"
  by (simp add: jobs_loop_round)

lemma Repeat_more_fuel:
  "Repeat fuel h jobs errors = Some r \<Longrightarrow> Repeat (fuel + k) h jobs errors = Some r"
proof (induction fuel arbitrary: h jobs errors)
  case 0
  then show ?case by simp
next
  case (Suc fuel)
  show ?case
  proof (cases "jobs = []")
    case True
    with Suc.prems show ?thesis by simp
  next
    case False
    from Suc.prems have "Repeat fuel (heap_after h jobs) (retained h jobs)
        (errors @ round_errors 0 h jobs) = Some r"
      unfolding Repeat_step [OF False] .
    then have "Repeat (fuel + k) (heap_after h jobs) (retained h jobs)
        (errors @ round_errors 0 h jobs) = Some r"
      by (rule Suc.IH)
    then show ?thesis
      unfolding add_Suc Repeat_step [OF False] .
  qed
qed

subsection \<open>Rounds over separate objects\<close>










subsection \<open>Jobs that always repeat, and a job listed twice\<close>





text \<open>
  C8. \<open>Repeat\<close> is a retry-until-done loop. One round calls every job of the list once,
  in list order (the jobs of \<open>calls\<close> are the list itself); the loop leaves each called
  object in the state its call left, appends to \<open>errors\<close> one formatted entry for each
  call that returned an error, in the order of the calls, and retains the jobs whose call
  returned true, in their order. With no job \<open>Repeat\<close> returns the error list it was
  given, and otherwise it goes on with the retained jobs. The counter of
  TestCountUpToTen, started at 1, is left in state "10", with no error. A job that fails
  with "boom" and does not repeat adds its entry after the errors passed in; in a round
  of a counter, the failing job and another counter, the entry carries the index 1 and
  the two counters are retained in their order.
\<close>

theorem Repeat_round:
  "map fst (calls h jobs) = jobs
   \<and> jobs_loop h 0 jobs errors []
       = (heap_after h jobs, errors @ round_errors 0 h jobs, retained h jobs)
   \<and> length (round_errors 0 h jobs)
       = length (filter (\<lambda>(job, s', repeat, err). err \<noteq> None) (calls h jobs))
   \<and> Repeat (Suc fuel) h [] errors = Some (h, errors)
   \<and> (jobs \<noteq> [] \<longrightarrow>
        Repeat (Suc fuel) h jobs errors
          = Repeat fuel (heap_after h jobs) (retained h jobs)
              (errors @ round_errors 0 h jobs))
   \<and> map_option (\<lambda>(h', errors'). (State_method (inc_Repeater 0) (h' 0), errors'))
         (Repeat 10 add_heap [inc_Repeater 0] []) = Some (''10'', [])
   \<and> map_option snd (Repeat 2 add_heap [boom_Repeater 0] [''old''])
       = Some [''old'', ''error at index 0 for job Ten with state 2 err boom'']
   \<and> (case jobs_loop add_heap 0 [inc_Repeater 0, boom_Repeater 1, inc_Repeater 2]
              [''old''] [] of
         (h', errors', resJobs) \<Rightarrow>
           (map (\<lambda>a. inc_State (h' a)) [0, 1, 2], errors', map ptr resJobs))
       = ([''2'', ''2'', ''2''],
          [''old'', ''error at index 1 for job Ten with state 2 err boom''], [0, 2])"
proof -
  have test: "map_option (\<lambda>(h', errors'). (State_method (inc_Repeater 0) (h' 0), errors'))
         (Repeat 10 add_heap [inc_Repeater 0] []) = Some (''10'', [])"
    by code_simp
  have boom: "map_option snd (Repeat 2 add_heap [boom_Repeater 0] [''old''])
       = Some [''old'', ''error at index 0 for job Ten with state 2 err boom'']"
    by code_simp
  have three: "(case jobs_loop add_heap 0 [inc_Repeater 0, boom_Repeater 1, inc_Repeater 2]
              [''old''] [] of
         (h', errors', resJobs) \<Rightarrow>
           (map (\<lambda>a. inc_State (h' a)) [0, 1, 2], errors', map ptr resJobs))
       = ([''2'', ''2'', ''2''],
          [''old'', ''error at index 1 for job Ten with state 2 err boom''], [0, 2])"
    by code_simp
  have loop: "jobs_loop h 0 jobs errors []
       = (heap_after h jobs, errors @ round_errors 0 h jobs, retained h jobs)"
    by (simp add: jobs_loop_round)
  have empty: "Repeat (Suc fuel) h [] errors = Some (h, errors)"
    by simp
  from calls_jobs [of h jobs] loop length_round_errors [of 0 h jobs] empty
    Repeat_step [of jobs fuel h errors] test boom three
  show ?thesis by blast
qed

theorem Repeat_round_witness:
  "[inc_Repeater 0, boom_Repeater 1, inc_Repeater 2] \<noteq> []
   \<and> Repeat (Suc 9) add_heap [inc_Repeater 0, boom_Repeater 1, inc_Repeater 2] [''old'']
       = Repeat 9 (heap_after add_heap [inc_Repeater 0, boom_Repeater 1, inc_Repeater 2])
           (retained add_heap [inc_Repeater 0, boom_Repeater 1, inc_Repeater 2])
           ([''old''] @ round_errors 0 add_heap
              [inc_Repeater 0, boom_Repeater 1, inc_Repeater 2])
   \<and> map ptr (retained add_heap [inc_Repeater 0, boom_Repeater 1, inc_Repeater 2]) = [0, 2]
   \<and> round_errors 0 add_heap [inc_Repeater 0, boom_Repeater 1, inc_Repeater 2]
       = [''error at index 1 for job Ten with state 2 err boom'']
   \<and> map (\<lambda>a. inc_State
                (heap_after add_heap [inc_Repeater 0, boom_Repeater 1, inc_Repeater 2] a))
         [0, 1, 2] = [''2'', ''2'', ''2'']"
proof -
  let ?jobs = "[inc_Repeater 0, boom_Repeater 1, inc_Repeater 2]"
  have r: "map ptr (retained add_heap ?jobs) = [0, 2]"
    by code_simp
  have e: "round_errors 0 add_heap ?jobs
       = [''error at index 1 for job Ten with state 2 err boom'']"
    by code_simp
  have h: "map (\<lambda>a. inc_State (heap_after add_heap ?jobs a)) [0, 1, 2]
       = [''2'', ''2'', ''2'']"
    by code_simp
  from Repeat_round [of add_heap ?jobs "[''old'']" 9] r e h show ?thesis
    by simp
qed




end
